theory Spec2Isabelle
  imports Main
begin

section \<open>Failures\<close>

text \<open>
  Every way a call of the two source files can end other than by returning is a value:
  \<^item> \<open>LoggerErrorLevelNotSet\<close>: the exception named by the comment on
    \<^verbatim>\<open>Logger::get_level\<close>;
  \<^item> \<open>Exception w\<close>: any other C++ exception, thrown by code that is called from the
    sources but defined elsewhere (\<open>w\<close> is its \<^verbatim>\<open>what()\<close>);
  \<^item> \<open>NullDereference\<close>: a member call through a null pointer (undefined behaviour in
    C++; the model stops the run there).
\<close>

datatype failure = LoggerErrorLevelNotSet | Exception string | NullDereference

section \<open>The logger: include/libdnf5/logger/logger.hpp\<close>

subsection \<open>Levels and the threshold\<close>

text \<open>\<^verbatim>\<open>enum class Level : unsigned int { CRITICAL, ERROR, WARNING, NOTICE, INFO, DEBUG, TRACE }\<close>\<close>

datatype Level = CRITICAL | ERROR | WARNING | NOTICE | INFO | DEBUG | TRACE

text \<open>\<^verbatim>\<open>static_cast<unsigned int>(level)\<close>: the enumerators count from 0 in declaration order.\<close>

fun Level_to_uint :: "Level \<Rightarrow> nat" where
  "Level_to_uint CRITICAL = 0"
| "Level_to_uint ERROR = 1"
| "Level_to_uint WARNING = 2"
| "Level_to_uint NOTICE = 3"
| "Level_to_uint INFO = 4"
| "Level_to_uint DEBUG = 5"
| "Level_to_uint TRACE = 6"

text \<open>\<^verbatim>\<open>LEVEL_C_STR\<close> and \<^verbatim>\<open>level_to_cstr\<close>; the array has \<open>TRACE + 1 = 7\<close> entries.\<close>

definition LEVEL_C_STR :: "string list" where
  "LEVEL_C_STR = [''CRITICAL'', ''ERROR'', ''WARNING'', ''NOTICE'', ''INFO'', ''DEBUG'', ''TRACE'']"

definition level_to_cstr :: "Level \<Rightarrow> string" where
  "level_to_cstr lvl =
     (let ilevel = Level_to_uint lvl
      in if ilevel \<ge> length LEVEL_C_STR then ''UNDEFINED'' else LEVEL_C_STR ! ilevel)"

text \<open>The only data member: \<^verbatim>\<open>std::optional<Level> level\<close>.\<close>

record Logger =
  level :: "Level option"

text \<open>\<^verbatim>\<open>Logger() = default\<close>: the optional starts empty.\<close>

definition Logger_init :: Logger where
  "Logger_init = \<lparr>level = None\<rparr>"

definition set_level :: "Level \<Rightarrow> Logger \<Rightarrow> Logger" where
  "set_level lvl this = this\<lparr>level := Some lvl\<rparr>"

definition is_level_set :: "Logger \<Rightarrow> bool" where
  "is_level_set this = (level this \<noteq> None)"

text \<open>
  Modelled from the spec: the body of \<^verbatim>\<open>Logger::get_level\<close> is missing (the header only
  declares it). The spec: ``returns the configured threshold; fails with a "level not
  configured" error if none was ever set''. The header's comment names the exception:
  ``LoggerErrorLevelNotSet is thrown in case the level is not set''.
\<close>

definition get_level :: "Logger \<Rightarrow> failure + Level" where
  "get_level this =
     (case level this of None \<Rightarrow> Inl LoggerErrorLevelNotSet | Some lvl \<Rightarrow> Inr lvl)"

text \<open>
  Modelled from the spec: the body of \<^verbatim>\<open>Logger::is_enabled_for\<close> is missing (the header
  only declares it). The spec: ``returns true iff a threshold is configured and
  \<open>msg_level\<close> is at least as severe as the threshold (lower enum ordinal = more severe);
  returns false if no threshold is configured''.
\<close>

definition is_enabled_for :: "Logger \<Rightarrow> Level \<Rightarrow> bool" where
  "is_enabled_for this msg_level =
     (if is_level_set this
      then (case get_level this of
              Inl e \<Rightarrow> False
            | Inr threshold \<Rightarrow> Level_to_uint msg_level \<le> Level_to_uint threshold)
      else False)"

subsection \<open>Logging calls\<close>

text \<open>
  What a logging call does is recorded as the list of the calls it makes, in order:
  \<open>Sformat format args\<close> is a call of the template expansion
  \<^verbatim>\<open>libdnf5::utils::sformat(format, args...)\<close>, \<open>LogLine lvl message\<close> a call of the
  virtual \<^verbatim>\<open>log_line\<close>, \<open>Write time pid lvl message\<close> a call of the pure virtual sink
  \<^verbatim>\<open>write\<close>. The arguments of the variadic calls are a list over any type \<open>'a\<close>.
\<close>

datatype 'a log_event =
    Sformat string "'a list"
  | LogLine Level string
  | Write int int Level string

fun is_Write :: "'a log_event \<Rightarrow> bool" where
  "is_Write (Write time pid lvl message) = True"
| "is_Write _ = False"

text \<open>
  \<^verbatim>\<open>libdnf5/utils/format.hpp\<close> is not among the sources, so \<^verbatim>\<open>sformat\<close> is a parameter
  of every function that calls it: given the template and the arguments it returns the
  message or throws. \<^verbatim>\<open>log_line\<close> is virtual: the implementation of the logger's dynamic
  type is a parameter as well. It is declared \<^verbatim>\<open>noexcept\<close>, as \<^verbatim>\<open>write\<close> is: no
  exception leaves it, and its model has no failure among its results.
\<close>

type_synonym 'a formatter = "string \<Rightarrow> 'a list \<Rightarrow> failure + string"

type_synonym 'a log_line_impl = "Logger \<Rightarrow> Level \<Rightarrow> string \<Rightarrow> 'a log_event list"

text \<open>
  \<^verbatim>\<open>virtual void write(time, pid, level, message) noexcept = 0\<close>: what a concrete logger
  does with the record is not part of the header; the call itself is the event.
\<close>

definition sink_write :: "int \<Rightarrow> int \<Rightarrow> Level \<Rightarrow> string \<Rightarrow> 'a log_event list" where
  "sink_write time pid lvl message = [Write time pid lvl message]"

text \<open>
  Modelled from the spec: the body of \<^verbatim>\<open>Logger::log_line\<close> is missing (the header only
  declares it). The spec: ``takes a pre-formatted string, stamps it with current
  wall-clock time and the calling process identifier, and forwards to the abstract
  \<open>write\<close> sink''. \<open>now\<close> is the clock's reading and \<open>getpid\<close> the process identifier at
  the call.
\<close>

definition log_line :: "int \<Rightarrow> int \<Rightarrow> 'a log_line_impl" where
  "log_line now getpid this lvl message = sink_write now getpid lvl message"

text \<open>
  \<^verbatim>\<open>void log(Level level, std::string_view format, Ss &&... args) {
      log_line(level, libdnf5::utils::sformat(format, std::forward<Ss>(args)...)); }\<close>
  The argument of \<^verbatim>\<open>log_line\<close> is evaluated before the call; an exception of \<^verbatim>\<open>sformat\<close>
  leaves \<^verbatim>\<open>log\<close>, which has no handler and is not \<^verbatim>\<open>noexcept\<close>. The result is how the
  call ends and the calls made.
\<close>

definition log :: "'a formatter \<Rightarrow> 'a log_line_impl \<Rightarrow> Logger \<Rightarrow> Level \<Rightarrow> string \<Rightarrow> 'a list
    \<Rightarrow> (failure + unit) \<times> 'a log_event list" where
  "log sformat log_line_v this lvl format args =
     (case sformat format args of
        Inl e \<Rightarrow> (Inl e, [Sformat format args])
      | Inr message \<Rightarrow>
          (Inr (), [Sformat format args, LogLine lvl message] @ log_line_v this lvl message))"

definition critical :: "'a formatter \<Rightarrow> 'a log_line_impl \<Rightarrow> Logger \<Rightarrow> string \<Rightarrow> 'a list
    \<Rightarrow> (failure + unit) \<times> 'a log_event list" where
  "critical sformat log_line_v this format args =
     log sformat log_line_v this CRITICAL format args"

definition error :: "'a formatter \<Rightarrow> 'a log_line_impl \<Rightarrow> Logger \<Rightarrow> string \<Rightarrow> 'a list
    \<Rightarrow> (failure + unit) \<times> 'a log_event list" where
  "error sformat log_line_v this format args =
     log sformat log_line_v this ERROR format args"

definition warning :: "'a formatter \<Rightarrow> 'a log_line_impl \<Rightarrow> Logger \<Rightarrow> string \<Rightarrow> 'a list
    \<Rightarrow> (failure + unit) \<times> 'a log_event list" where
  "warning sformat log_line_v this format args =
     log sformat log_line_v this WARNING format args"

definition notice :: "'a formatter \<Rightarrow> 'a log_line_impl \<Rightarrow> Logger \<Rightarrow> string \<Rightarrow> 'a list
    \<Rightarrow> (failure + unit) \<times> 'a log_event list" where
  "notice sformat log_line_v this format args =
     log sformat log_line_v this NOTICE format args"

definition info :: "'a formatter \<Rightarrow> 'a log_line_impl \<Rightarrow> Logger \<Rightarrow> string \<Rightarrow> 'a list
    \<Rightarrow> (failure + unit) \<times> 'a log_event list" where
  "info sformat log_line_v this format args =
     log sformat log_line_v this INFO format args"

definition debug :: "'a formatter \<Rightarrow> 'a log_line_impl \<Rightarrow> Logger \<Rightarrow> string \<Rightarrow> 'a list
    \<Rightarrow> (failure + unit) \<times> 'a log_event list" where
  "debug sformat log_line_v this format args =
     log sformat log_line_v this DEBUG format args"

definition trace :: "'a formatter \<Rightarrow> 'a log_line_impl \<Rightarrow> Logger \<Rightarrow> string \<Rightarrow> 'a list
    \<Rightarrow> (failure + unit) \<times> 'a log_event list" where
  "trace sformat log_line_v this format args =
     log sformat log_line_v this TRACE format args"

text \<open>
  A formatter for closed examples: a template without braces has no replacement field
  and is its own expansion; any other template is rejected here with an exception.
\<close>

definition sformat_no_fields :: "'a formatter" where
  "sformat_no_fields format args =
     (if CHR ''{'' \<in> set format \<or> CHR ''}'' \<in> set format
      then Inl (Exception ''format_error'') else Inr format)"

text \<open>A logger after a sequence of \<^verbatim>\<open>set_level\<close> calls, in call order.\<close>

fun set_levels :: "Level list \<Rightarrow> Logger \<Rightarrow> Logger" where
  "set_levels [] this = this"
| "set_levels (lvl # lvls) this = set_levels lvls (set_level lvl this)"

section \<open>The install command: microdnf/commands/install/install.cpp\<close>

subsection \<open>Option values and the collected patterns\<close>

text \<open>
  \<^verbatim>\<open>libdnf::Option\<close> is a polymorphic base class and \<^verbatim>\<open>libdnf::OptionString\<close> the
  subclass that the source names; \<open>OtherOption n\<close> is an object of any other subclass
  (\<open>n\<close> its class name). The state of an \<^verbatim>\<open>OptionString\<close> is its value, absent when
  it was built as \<^verbatim>\<open>OptionString(nullptr)\<close> and never set. A
  \<^verbatim>\<open>std::unique_ptr<libdnf::Option>\<close> either owns an object or is null (\<open>None\<close>).
\<close>

type_synonym OptionString = "string option"

datatype libdnf_Option = OptionString OptionString | OtherOption string

type_synonym Option_ptr = "libdnf_Option option"

text \<open>
  \<^verbatim>\<open>dynamic_cast<libdnf::OptionString *>(pattern.get())\<close>: the object when its dynamic
  type is \<^verbatim>\<open>OptionString\<close>, a null pointer for any other object and for a null pointer.
\<close>

fun dynamic_cast_OptionString :: "Option_ptr \<Rightarrow> OptionString option" where
  "dynamic_cast_OptionString (Some (OptionString v)) = Some v"
| "dynamic_cast_OptionString (Some (OtherOption n)) = None"
| "dynamic_cast_OptionString None = None"

text \<open>
  Modelled from the spec: \<^verbatim>\<open>libdnf::Goal\<close> is not among the sources. The spec: ``a
  mutable accumulation of installation requests (one per pattern)''. The goal is the
  list of the requests in the order they were added.
\<close>

type_synonym Goal = "string list"

definition add_rpm_install :: "string \<Rightarrow> Goal \<Rightarrow> Goal" where
  "add_rpm_install spec goal = goal @ [spec]"

text \<open>
  The loop of \<^verbatim>\<open>CmdInstall::run\<close>:
  \<^verbatim>\<open>for (auto & pattern : *patterns_to_install_options) {
      auto option = dynamic_cast<libdnf::OptionString *>(pattern.get());
      goal.add_rpm_install(option->get_value()); }\<close>
  The result of the cast is used without a test, so a null result is dereferenced.
  \<^verbatim>\<open>OptionString::get_value\<close> is not among the sources: it is the parameter \<open>get_value\<close>,
  which returns the value (\<open>Inr\<close>) or throws (\<open>Inl\<close>, with the exception's text).
\<close>

fun add_patterns ::
  "(OptionString \<Rightarrow> string + string) \<Rightarrow> Option_ptr list \<Rightarrow> Goal \<Rightarrow> failure + Goal" where
  "add_patterns get_value [] goal = Inr goal"
| "add_patterns get_value (pattern # rest) goal =
     (case dynamic_cast_OptionString pattern of
        None \<Rightarrow> Inl NullDereference
      | Some option \<Rightarrow>
          (case get_value option of
             Inl w \<Rightarrow> Inl (Exception w)
           | Inr spec \<Rightarrow> add_patterns get_value rest (add_rpm_install spec goal)))"

text \<open>
  \<^verbatim>\<open>CmdInstall::set_argument_parser\<close> registers the positional argument
  \<^verbatim>\<open>"keys_to_match"\<close> with an unlimited number of values, the initial value
  \<^verbatim>\<open>new libdnf::OptionString(nullptr)\<close> and \<^verbatim>\<open>patterns_to_install_options\<close> as the list
  that receives the values.
\<close>

datatype nargs = UNLIMITED | Exactly nat

record PositionalArg =
  arg_name :: string
  nvals :: nargs
  init_value :: libdnf_Option

definition keys :: PositionalArg where
  "keys = \<lparr>arg_name = ''keys_to_match'', nvals = UNLIMITED, init_value = OptionString None\<rparr>"

text \<open>
  Modelled from the spec: \<^verbatim>\<open>ArgumentParser\<close> is not among the sources. The spec: the
  pattern collector ``gathers user-supplied match patterns [...] from the command line
  into an ordered list''; a pattern is ``a single user-supplied match string''. Each
  command-line word of the positional argument becomes one element of the list, in
  order: a copy of the argument's initial value (a copy has the dynamic type of its
  original) that is given the word as its value.
\<close>

fun Option_set :: "libdnf_Option \<Rightarrow> string \<Rightarrow> libdnf_Option" where
  "Option_set (OptionString v) word = OptionString (Some word)"
| "Option_set (OtherOption n) word = OtherOption n"

definition parse_positional :: "PositionalArg \<Rightarrow> string list \<Rightarrow> Option_ptr list" where
  "parse_positional arg argv = map (\<lambda>word. Some (Option_set (init_value arg) word)) argv"

subsection \<open>Collaborators\<close>

text \<open>
  Modelled from the spec: the functions of \<^verbatim>\<open>context.hpp\<close>, libdnf and libdnf-cli that
  \<^verbatim>\<open>run\<close> calls are not among the sources. They are the fields of the record
  \<open>Context\<close>, one per function, named as in the source, and what they do is a parameter
  of \<^verbatim>\<open>run\<close>. Which of them can fail is taken from the spec, which names ``repository
  load, download, or execution failure'', each ``propagated to the caller as a failure
  outcome''. \<^verbatim>\<open>run\<close> returns \<^verbatim>\<open>void\<close> and has no handler, so such a failure is an
  exception (\<open>Inl\<close>, with its text) that leaves \<^verbatim>\<open>run\<close> at the call. The three calls
  are statements: \<^verbatim>\<open>ctx.load_rpm_repos(enabled_repos, flags);\<close>,
  \<^verbatim>\<open>download_packages(goal, nullptr);\<close> and \<^verbatim>\<open>run_transaction(rpm_transaction);\<close>. What
  such a call returns (\<open>Inr\<close>) is not read by \<^verbatim>\<open>run\<close>. The spec gives each of the three a
  result that can report a failure: ``load_remote(feature_flags) -> success|failure'',
  ``fetch(transaction_items) -> success|failure'' and ``apply(transaction_items) ->
  success|failure_with_partial_state''; these are the reports that a call returns.
  \<open>PROBLEM n\<close> is any result of \<^verbatim>\<open>resolve\<close> other than \<^verbatim>\<open>NO_PROBLEM\<close>; the four flags
  are the ones the source combines.
\<close>

datatype GoalProblem = NO_PROBLEM | PROBLEM nat

datatype LoadRepoFlags = USE_FILELISTS | USE_PRESTO | USE_UPDATEINFO | USE_OTHER

datatype load_report = Loaded | LoadFailed

datatype download_report = Downloaded | DownloadFailed

datatype execution_report = Succeeded | PartialFailure

record Context =
  load_rpm_repos :: "LoadRepoFlags set \<Rightarrow> string + load_report"
  get_value :: "OptionString \<Rightarrow> string + string"
  resolve :: "Goal \<Rightarrow> bool \<Rightarrow> GoalProblem"
  get_formated_all_problems :: "Goal \<Rightarrow> string"
  print_transaction_table :: "Goal \<Rightarrow> bool"
  userconfirm :: bool
  download_packages :: "Goal \<Rightarrow> string + download_report"
  run_transaction :: "Goal \<Rightarrow> string + execution_report"
  system_clock_now :: "nat \<Rightarrow> int"

text \<open>
  \<open>system_clock_now ctx k\<close> is reading number \<open>k\<close> of
  \<^verbatim>\<open>std::chrono::system_clock::now().time_since_epoch()\<close> in the run, in ticks of the
  clock; the clock of libstdc++ counts nanoseconds.
  \<^verbatim>\<open>std::chrono::duration_cast<std::chrono::seconds>(time).count()\<close> divides, rounding
  toward zero.
\<close>

definition ticks_per_second :: int where
  "ticks_per_second = 1000000000"

definition duration_cast_seconds :: "int \<Rightarrow> int" where
  "duration_cast_seconds time =
     (if 0 \<le> time then time div ticks_per_second else - ((- time) div ticks_per_second))"

subsection \<open>The persisted transaction record\<close>

text \<open>
  Modelled from the spec: \<^verbatim>\<open>libdnf::transaction::Transaction\<close> and
  \<^verbatim>\<open>new_db_transaction\<close> are not among the sources. The spec: ``a persisted entity with
  start time, end time, and a terminal state (e.g., DONE)'', with the history store's
  operations \<open>create_record\<close>, \<open>set_start(t)\<close>, \<open>start()\<close>, \<open>set_end(t)\<close>,
  \<open>finish(state)\<close>. A field that was never set is \<open>None\<close>. The source names only the
  state \<open>DONE\<close>.
\<close>

datatype TransactionState = UNKNOWN | DONE | ERROR_STATE

record Transaction =
  dt_start :: "int option"
  dt_end :: "int option"
  started :: bool
  state :: "TransactionState option"

definition new_db_transaction :: Transaction where
  "new_db_transaction = \<lparr>dt_start = None, dt_end = None, started = False, state = None\<rparr>"

definition set_dt_start :: "int \<Rightarrow> Transaction \<Rightarrow> Transaction" where
  "set_dt_start t db = db\<lparr>dt_start := Some t\<rparr>"

definition start :: "Transaction \<Rightarrow> Transaction" where
  "start db = db\<lparr>started := True\<rparr>"

definition set_dt_end :: "int \<Rightarrow> Transaction \<Rightarrow> Transaction" where
  "set_dt_end t db = db\<lparr>dt_end := Some t\<rparr>"

definition finish :: "TransactionState \<Rightarrow> Transaction \<Rightarrow> Transaction" where
  "finish s db = db\<lparr>state := Some s\<rparr>"

subsection \<open>CmdInstall::run\<close>

text \<open>
  The calls that \<^verbatim>\<open>run\<close> makes on its collaborators and what it writes to
  \<^verbatim>\<open>std::cout\<close>, in order. \<open>Cout s\<close> is \<^verbatim>\<open>std::cout << s\<close>, \<open>CoutEndl\<close> is
  \<^verbatim>\<open>std::cout << std::endl\<close>.
\<close>

datatype event =
    CreateSystemRepo bool
  | LoadRpmRepos "LoadRepoFlags set"
  | Cout string
  | CoutEndl
  | Resolve Goal bool
  | PrintTransactionTable Goal
  | UserConfirm
  | DownloadPackages Goal
  | NewRpmTransaction
  | NewDbTransaction
  | FillTransactions Goal
  | SetDtStart int
  | Start
  | RunTransaction Goal
  | SetDtEnd int
  | Finish TransactionState


fun is_DownloadPackages :: "event \<Rightarrow> bool" where
  "is_DownloadPackages (DownloadPackages goal) = True"
| "is_DownloadPackages _ = False"

text \<open>
  How a run ends (\<open>Inr ()\<close>: \<^verbatim>\<open>run\<close> returns; \<open>Inl\<close>: an exception or a null dereference
  ends it), the calls it made, and the transaction record as the run leaves it (\<open>None\<close>:
  none was created).
\<close>

record run_result =
  outcome :: "failure + unit"
  events :: "event list"
  db_transaction :: "Transaction option"

text \<open>
  \<^verbatim>\<open>CmdInstall::run\<close>, statement by statement (lines 73 to 126 of install.cpp):
  the system repository and the enabled repositories are loaded; an empty line is
  written; the goal is built by the loop above; \<^verbatim>\<open>goal.resolve(false)\<close> other than
  \<^verbatim>\<open>NO_PROBLEM\<close> writes the problems and returns; a transaction table with nothing to
  print returns; a refused confirmation writes \<^verbatim>\<open>Operation aborted.\<close> and returns;
  then the packages are downloaded, an empty line is written, the rpm transaction and the
  record are created and filled, the clock is read, the start time set and the record
  started, the transaction run, the clock read again, the end time set and the record
  finished with \<^verbatim>\<open>DONE\<close>. There is no \<^verbatim>\<open>try\<close> block and no object whose destructor
  would finish the record.
\<close>

definition run :: "Context \<Rightarrow> Option_ptr list \<Rightarrow> run_result" where
  "run ctx patterns_to_install_options =
    (let flags = {USE_FILELISTS, USE_PRESTO, USE_UPDATEINFO, USE_OTHER};
         tr = [CreateSystemRepo False, LoadRpmRepos flags]
     in case load_rpm_repos ctx flags of
          Inl w \<Rightarrow> \<lparr>outcome = Inl (Exception w), events = tr, db_transaction = None\<rparr>
        | Inr u \<Rightarrow>
    (let tr = tr @ [CoutEndl]
     in case add_patterns (get_value ctx) patterns_to_install_options [] of
          Inl e \<Rightarrow> \<lparr>outcome = Inl e, events = tr, db_transaction = None\<rparr>
        | Inr goal \<Rightarrow>
    (let tr = tr @ [Resolve goal False]
     in if resolve ctx goal False \<noteq> NO_PROBLEM
        then \<lparr>outcome = Inr (),
              events = tr @ [Cout (get_formated_all_problems ctx goal), CoutEndl],
              db_transaction = None\<rparr>
        else
    (let tr = tr @ [PrintTransactionTable goal]
     in if \<not> print_transaction_table ctx goal
        then \<lparr>outcome = Inr (), events = tr, db_transaction = None\<rparr>
        else
    (let tr = tr @ [UserConfirm]
     in if \<not> userconfirm ctx
        then \<lparr>outcome = Inr (),
              events = tr @ [Cout ''Operation aborted.'', CoutEndl],
              db_transaction = None\<rparr>
        else
    (let tr = tr @ [DownloadPackages goal]
     in case download_packages ctx goal of
          Inl w \<Rightarrow> \<lparr>outcome = Inl (Exception w), events = tr, db_transaction = None\<rparr>
        | Inr u \<Rightarrow>
    (let tr = tr @ [CoutEndl, NewRpmTransaction, NewDbTransaction, FillTransactions goal];
         db = new_db_transaction;
         time = system_clock_now ctx 0;
         db = set_dt_start (duration_cast_seconds time) db;
         db = start db;
         tr = tr @ [SetDtStart (duration_cast_seconds time), Start, RunTransaction goal]
     in case run_transaction ctx goal of
          Inl w \<Rightarrow> \<lparr>outcome = Inl (Exception w), events = tr, db_transaction = Some db\<rparr>
        | Inr report \<Rightarrow>
    (let time = system_clock_now ctx 1;
         db = set_dt_end (duration_cast_seconds time) db;
         db = finish DONE db;
         tr = tr @ [SetDtEnd (duration_cast_seconds time), Finish DONE]
     in \<lparr>outcome = Inr (), events = tr, db_transaction = Some db\<rparr>))))))))"

subsection \<open>Example collaborators\<close>

text \<open>
  Collaborators for closed examples, after the spec's scenarios: every repository loads,
  an option-string returns its value when it has one, the engine reports a problem for
  the pattern \<open>nonexistent\<close> and none otherwise, the preview has content when the goal
  has a request, the user answers yes, download and execution succeed, and the clock
  reads 1700000000.123456789 s at the first sample and 1700000003.999999999 s at the
  second.
\<close>

definition scenario_ctx :: Context where
  "scenario_ctx =
     \<lparr>load_rpm_repos = (\<lambda>flags. Inr Loaded),
      get_value = (\<lambda>v. case v of None \<Rightarrow> Inl ''value not set'' | Some s \<Rightarrow> Inr s),
      resolve = (\<lambda>goal strict. if ''nonexistent'' \<in> set goal then PROBLEM 1 else NO_PROBLEM),
      get_formated_all_problems = (\<lambda>goal. ''No match for argument: nonexistent''),
      print_transaction_table = (\<lambda>goal. goal \<noteq> []),
      userconfirm = True,
      download_packages = (\<lambda>goal. Inr Downloaded),
      run_transaction = (\<lambda>goal. Inr Succeeded),
      system_clock_now = (\<lambda>k. if k = 0 then 1700000000123456789 else 1700000003999999999)\<rparr>"

text \<open>The same with one collaborator changed.\<close>

definition refusing_ctx :: Context where
  "refusing_ctx = scenario_ctx\<lparr>userconfirm := False\<rparr>"

definition download_failing_ctx :: Context where
  "download_failing_ctx = scenario_ctx\<lparr>download_packages := (\<lambda>goal. Inl ''download failed'')\<rparr>"

definition download_reporting_ctx :: Context where
  "download_reporting_ctx = scenario_ctx\<lparr>download_packages := (\<lambda>goal. Inr DownloadFailed)\<rparr>"

definition execution_raising_ctx :: Context where
  "execution_raising_ctx = scenario_ctx\<lparr>run_transaction := (\<lambda>goal. Inl ''rpm transaction failed'')\<rparr>"

definition execution_reporting_ctx :: Context where
  "execution_reporting_ctx = scenario_ctx\<lparr>run_transaction := (\<lambda>goal. Inr PartialFailure)\<rparr>"

section \<open>Properties of the logger\<close>

lemma set_levels_snoc: "set_levels (lvls @ [lvl]) this = set_level lvl (set_levels lvls this)"
  by (induction lvls arbitrary: this) simp_all

text \<open>
  Claim C6. A logger on which \<^verbatim>\<open>set_level\<close> was never called (the default-constructed
  one, and any logger whose threshold is not set) fails \<^verbatim>\<open>get_level\<close> with
  \<open>LoggerErrorLevelNotSet\<close>. After \<^verbatim>\<open>set_level(L)\<close>, whatever the logger was before and
  whatever thresholds were set earlier, \<^verbatim>\<open>get_level\<close> returns exactly \<open>L\<close>; setting the
  same threshold twice is the same as setting it once, and a later threshold overwrites
  an earlier one.
\<close>

theorem get_level_after_set_level:
  "get_level Logger_init = Inl LoggerErrorLevelNotSet
   \<and> (\<not> is_level_set this \<longrightarrow> get_level this = Inl LoggerErrorLevelNotSet)
   \<and> get_level (set_level L this) = Inr L
   \<and> get_level (set_levels (Ls @ [L]) this) = Inr L
   \<and> set_level L (set_level L this) = set_level L this
   \<and> set_level L (set_level L' this) = set_level L this"
  by (simp add: get_level_def Logger_init_def is_level_set_def set_levels_snoc set_level_def)

theorem get_level_after_set_level_witness:
  "\<not> is_level_set Logger_init
   \<and> get_level Logger_init = Inl LoggerErrorLevelNotSet
   \<and> get_level (set_level DEBUG (set_level ERROR Logger_init)) = Inr DEBUG
   \<and> get_level (set_levels ([TRACE, CRITICAL] @ [NOTICE]) Logger_init) = Inr NOTICE"
  using get_level_after_set_level [of Logger_init DEBUG "[TRACE, CRITICAL]" ERROR]
    get_level_after_set_level [of "set_level ERROR Logger_init" DEBUG "[]" ERROR]
    get_level_after_set_level [of Logger_init NOTICE "[TRACE, CRITICAL]" ERROR]
  by (simp add: is_level_set_def Logger_init_def)

text \<open>
  Claim C7. \<^verbatim>\<open>is_enabled_for(L)\<close> is false whenever \<^verbatim>\<open>is_level_set()\<close> is false; when a
  threshold \<open>T\<close> is configured it is true exactly when the ordinal of \<open>L\<close> is at most the
  ordinal of \<open>T\<close> (a lower ordinal is more severe).
\<close>

theorem is_enabled_for_iff:
  "(\<not> is_level_set this \<longrightarrow> \<not> is_enabled_for this L)
   \<and> (\<forall>T. level this = Some T \<longrightarrow>
          is_level_set this \<and> is_enabled_for this L = (Level_to_uint L \<le> Level_to_uint T))"
  by (simp add: is_enabled_for_def is_level_set_def get_level_def)

theorem is_enabled_for_iff_witness:
  "\<not> is_level_set Logger_init \<and> \<not> is_enabled_for Logger_init CRITICAL
   \<and> level (set_level WARNING Logger_init) = Some WARNING
   \<and> is_enabled_for (set_level WARNING Logger_init) ERROR
   \<and> is_enabled_for (set_level WARNING Logger_init) WARNING
   \<and> \<not> is_enabled_for (set_level WARNING Logger_init) INFO"
  using is_enabled_for_iff [of Logger_init CRITICAL]
    is_enabled_for_iff [of "set_level WARNING Logger_init" ERROR]
    is_enabled_for_iff [of "set_level WARNING Logger_init" WARNING]
    is_enabled_for_iff [of "set_level WARNING Logger_init" INFO]
  by (simp add: is_level_set_def Logger_init_def set_level_def)

subsection \<open>Convenience calls, formatting and the sink\<close>

lemmas convenience_defs =
  critical_def error_def warning_def notice_def info_def debug_def trace_def

lemma log_calls:
  "snd (log sformat log_line_v this lvl format args) =
     Sformat format args #
       (case sformat format args of
          Inl e \<Rightarrow> []
        | Inr message \<Rightarrow> LogLine lvl message # log_line_v this lvl message)"
  by (simp add: log_def split: sum.splits)

text \<open>
  Claim C1, as the code has it. The claim fails: \<^verbatim>\<open>log\<close> and the seven convenience calls
  make no enablement check, so the template expansion runs, and \<^verbatim>\<open>log_line\<close> is called,
  also for a level that the threshold suppresses. With threshold \<open>WARNING\<close>, \<^verbatim>\<open>info("x")\<close>
  expands the template; these are its calls up to the sink.
\<close>

theorem suppressed_info_is_formatted:
  "\<not> is_enabled_for (set_level WARNING Logger_init) INFO
   \<and> filter (\<lambda>e. \<not> is_Write e)
        (snd (info sformat_no_fields (log_line 1700000000 4242) (set_level WARNING Logger_init)
                ''x'' ([] :: unit list)))
     = [Sformat ''x'' [], LogLine INFO ''x'']"
  by (simp add: is_enabled_for_def is_level_set_def get_level_def set_level_def
      info_def log_def sformat_no_fields_def log_line_def sink_write_def)

text \<open>
  Claim C1, amended. For every logger, whatever its threshold (also none), each per-level
  convenience call invokes the template expansion exactly once, as its first action,
  and, when the expansion returns a message, calls \<^verbatim>\<open>log_line\<close> exactly once with the
  call's own level and that message; no enablement check is made. With threshold
  \<open>WARNING\<close> and \<^verbatim>\<open>log_line\<close> forwarding to the sink, \<^verbatim>\<open>error("x")\<close> reaches \<^verbatim>\<open>write\<close>
  exactly once, with level \<open>ERROR\<close>.
\<close>

theorem convenience_call_formats_then_calls_log_line:
  "((c, L) \<in> {(critical, CRITICAL), (error, ERROR), (warning, WARNING), (notice, NOTICE),
               (info, INFO), (debug, DEBUG), (trace, TRACE)} \<longrightarrow>
      snd (c sformat log_line_v this format args) =
        Sformat format args #
          (case sformat format args of
             Inl e \<Rightarrow> []
           | Inr message \<Rightarrow> LogLine L message # log_line_v this L message))
   \<and> (sformat ''x'' [] = Inr ''x'' \<longrightarrow>
        filter is_Write
          (snd (error sformat (log_line now getpid) (set_level WARNING this) ''x'' []))
        = [Write now getpid ERROR ''x''])"
proof (intro conjI impI)
  assume "(c, L) \<in> {(critical, CRITICAL), (error, ERROR), (warning, WARNING),
                     (notice, NOTICE), (info, INFO), (debug, DEBUG), (trace, TRACE)}"
  then have "c sformat log_line_v this format args = log sformat log_line_v this L format args"
    by (auto simp: convenience_defs)
  then show "snd (c sformat log_line_v this format args) =
        Sformat format args #
          (case sformat format args of
             Inl e \<Rightarrow> []
           | Inr message \<Rightarrow> LogLine L message # log_line_v this L message)"
    by (simp add: log_calls)
next
  assume "sformat ''x'' [] = Inr ''x''"
  then show "filter is_Write
          (snd (error sformat (log_line now getpid) (set_level WARNING this) ''x'' []))
        = [Write now getpid ERROR ''x'']"
    by (simp add: error_def log_calls log_line_def sink_write_def)
qed

theorem convenience_call_formats_then_calls_log_line_witness:
  "(debug, DEBUG) \<in> {(critical, CRITICAL), (error, ERROR), (warning, WARNING),
                      (notice, NOTICE), (info, INFO), (debug, DEBUG), (trace, TRACE)}
   \<and> \<not> is_enabled_for (set_level ERROR Logger_init) DEBUG
   \<and> snd (debug sformat_no_fields (log_line 5 7) (set_level ERROR Logger_init)
             ''cache hit'' ([] :: unit list))
       = [Sformat ''cache hit'' [], LogLine DEBUG ''cache hit'', Write 5 7 DEBUG ''cache hit'']
   \<and> (sformat_no_fields :: unit formatter) ''x'' [] = Inr ''x''
   \<and> filter is_Write
        (snd (error sformat_no_fields (log_line 5 7) (set_level WARNING Logger_init)
                ''x'' ([] :: unit list)))
       = [Write 5 7 ERROR ''x'']"
  using convenience_call_formats_then_calls_log_line
    [where c = debug and L = DEBUG and sformat = "sformat_no_fields :: unit formatter"
       and log_line_v = "log_line 5 7" and this = "set_level ERROR Logger_init"
       and format = "''cache hit''" and args = "[]" and now = 5 and getpid = 7]
    convenience_call_formats_then_calls_log_line
    [where c = error and L = ERROR and sformat = "sformat_no_fields :: unit formatter"
       and log_line_v = "log_line 5 7" and this = Logger_init
       and format = "''x''" and args = "[]" and now = 5 and getpid = 7]
  by (simp add: sformat_no_fields_def log_line_def sink_write_def
      is_enabled_for_def is_level_set_def get_level_def set_level_def)

text \<open>
  Claim C8, as the code has it. The claim fails for \<^verbatim>\<open>log\<close> and the convenience calls:
  an exception of the template expansion is not caught, it leaves the call. Here the
  level is enabled and the template is malformed.
\<close>

theorem info_raises_format_failure:
  "is_enabled_for (set_level INFO Logger_init) INFO
   \<and> info sformat_no_fields (log_line 1700000000 4242) (set_level INFO Logger_init)
        ''{'' ([] :: unit list)
     = (Inl (Exception ''format_error''), [Sformat ''{'' []])"
  by (simp add: is_enabled_for_def is_level_set_def get_level_def set_level_def
      info_def log_def sformat_no_fields_def)

text \<open>
  Claim C8, amended. \<^verbatim>\<open>log_line\<close> never raises to its caller: it makes one call of the
  sink and returns. \<^verbatim>\<open>log\<close> and every convenience call raise to the caller exactly when
  the template expansion fails, with the expansion's own failure; \<^verbatim>\<open>log_line\<close> and the
  sink are then never reached. When the expansion returns, the call returns.
\<close>

theorem log_raises_iff_sformat_raises:
  "log_line now getpid this lvl message = [Write now getpid lvl message]
   \<and> fst (log sformat log_line_v this lvl format args) =
       (case sformat format args of Inl e \<Rightarrow> Inl e | Inr m \<Rightarrow> Inr ())
   \<and> (\<forall>e. sformat format args = Inl e \<longrightarrow>
          log sformat log_line_v this lvl format args = (Inl e, [Sformat format args]))
   \<and> ((c, L) \<in> {(critical, CRITICAL), (error, ERROR), (warning, WARNING), (notice, NOTICE),
                  (info, INFO), (debug, DEBUG), (trace, TRACE)} \<longrightarrow>
        c sformat log_line_v this format args = log sformat log_line_v this L format args)"
  by (auto simp: log_line_def sink_write_def log_def convenience_defs split: sum.splits)

theorem log_raises_iff_sformat_raises_witness:
  "(sformat_no_fields :: unit formatter) ''}{'' [] = Inl (Exception ''format_error'')
   \<and> log sformat_no_fields (log_line 5 7) (set_level TRACE Logger_init) WARNING ''}{''
        ([] :: unit list)
       = (Inl (Exception ''format_error''), [Sformat ''}{'' []])
   \<and> (warning, WARNING) \<in> {(critical, CRITICAL), (error, ERROR), (warning, WARNING),
                            (notice, NOTICE), (info, INFO), (debug, DEBUG), (trace, TRACE)}
   \<and> warning sformat_no_fields (log_line 5 7) (set_level TRACE Logger_init) ''}{''
        ([] :: unit list)
       = (Inl (Exception ''format_error''), [Sformat ''}{'' []])
   \<and> fst (log sformat_no_fields (log_line 5 7) (set_level TRACE Logger_init) WARNING
             ''disk full'' ([] :: unit list)) = Inr ()"
  using log_raises_iff_sformat_raises
    [where sformat = "sformat_no_fields :: unit formatter" and log_line_v = "log_line 5 7"
       and this = "set_level TRACE Logger_init" and lvl = WARNING and format = "''}{''"
       and args = "[]" and c = warning and L = WARNING
       and now = 5 and getpid = 7 and message = "''''"]
    log_raises_iff_sformat_raises
    [where sformat = "sformat_no_fields :: unit formatter" and log_line_v = "log_line 5 7"
       and this = "set_level TRACE Logger_init" and lvl = WARNING
       and format = "''disk full''" and args = "[]" and c = warning and L = WARNING
       and now = 5 and getpid = 7 and message = "''''"]
  by (auto simp: sformat_no_fields_def)

section \<open>Properties of the install pipeline\<close>


lemmas db_defs =
  new_db_transaction_def set_dt_start_def start_def set_dt_end_def finish_def

lemmas ctx_defs =
  scenario_ctx_def refusing_ctx_def download_failing_ctx_def download_reporting_ctx_def
  execution_raising_ctx_def execution_reporting_ctx_def

lemmas run_eval =
  run_def Let_def parse_positional_def keys_def add_rpm_install_def db_defs
  duration_cast_seconds_def ticks_per_second_def


lemma run_scenario_nonexistent:
  "run scenario_ctx (parse_positional keys [''nonexistent'']) =
     \<lparr>outcome = Inr (),
      events =
        [CreateSystemRepo False,
         LoadRpmRepos {USE_FILELISTS, USE_PRESTO, USE_UPDATEINFO, USE_OTHER},
         CoutEndl, Resolve [''nonexistent''] False,
         Cout ''No match for argument: nonexistent'', CoutEndl],
      db_transaction = None\<rparr>"
  by (simp add: run_eval ctx_defs)

lemma run_scenario_no_patterns:
  "run scenario_ctx (parse_positional keys []) =
     \<lparr>outcome = Inr (),
      events =
        [CreateSystemRepo False,
         LoadRpmRepos {USE_FILELISTS, USE_PRESTO, USE_UPDATEINFO, USE_OTHER},
         CoutEndl, Resolve [] False, PrintTransactionTable []],
      db_transaction = None\<rparr>"
  by (simp add: run_eval ctx_defs)

lemma run_refusing_foo:
  "run refusing_ctx (parse_positional keys [''foo'']) =
     \<lparr>outcome = Inr (),
      events =
        [CreateSystemRepo False,
         LoadRpmRepos {USE_FILELISTS, USE_PRESTO, USE_UPDATEINFO, USE_OTHER},
         CoutEndl, Resolve [''foo''] False, PrintTransactionTable [''foo''],
         UserConfirm, Cout ''Operation aborted.'', CoutEndl],
      db_transaction = None\<rparr>"
  by (simp add: run_eval ctx_defs)

lemma run_download_failing_foo:
  "run download_failing_ctx (parse_positional keys [''foo'']) =
     \<lparr>outcome = Inl (Exception ''download failed''),
      events =
        [CreateSystemRepo False,
         LoadRpmRepos {USE_FILELISTS, USE_PRESTO, USE_UPDATEINFO, USE_OTHER},
         CoutEndl, Resolve [''foo''] False, PrintTransactionTable [''foo''],
         UserConfirm, DownloadPackages [''foo'']],
      db_transaction = None\<rparr>"
  by (simp add: run_eval ctx_defs)

lemma run_download_reporting_foo:
  "run download_reporting_ctx (parse_positional keys [''foo'']) =
     \<lparr>outcome = Inr (),
      events =
        [CreateSystemRepo False,
         LoadRpmRepos {USE_FILELISTS, USE_PRESTO, USE_UPDATEINFO, USE_OTHER},
         CoutEndl, Resolve [''foo''] False, PrintTransactionTable [''foo''],
         UserConfirm, DownloadPackages [''foo''], CoutEndl, NewRpmTransaction,
         NewDbTransaction, FillTransactions [''foo''], SetDtStart 1700000000,
         Start, RunTransaction [''foo''], SetDtEnd 1700000003, Finish DONE],
      db_transaction =
        Some \<lparr>dt_start = Some 1700000000, dt_end = Some 1700000003,
              started = True, state = Some DONE\<rparr>\<rparr>"
  by (simp add: run_eval ctx_defs)

lemma run_execution_raising_foo:
  "run execution_raising_ctx (parse_positional keys [''foo'']) =
     \<lparr>outcome = Inl (Exception ''rpm transaction failed''),
      events =
        [CreateSystemRepo False,
         LoadRpmRepos {USE_FILELISTS, USE_PRESTO, USE_UPDATEINFO, USE_OTHER},
         CoutEndl, Resolve [''foo''] False, PrintTransactionTable [''foo''],
         UserConfirm, DownloadPackages [''foo''], CoutEndl, NewRpmTransaction,
         NewDbTransaction, FillTransactions [''foo''], SetDtStart 1700000000,
         Start, RunTransaction [''foo'']],
      db_transaction =
        Some \<lparr>dt_start = Some 1700000000, dt_end = None,
              started = True, state = None\<rparr>\<rparr>"
  by (simp add: run_eval ctx_defs)

lemma run_execution_reporting_foo:
  "run execution_reporting_ctx (parse_positional keys [''foo'']) =
     \<lparr>outcome = Inr (),
      events =
        [CreateSystemRepo False,
         LoadRpmRepos {USE_FILELISTS, USE_PRESTO, USE_UPDATEINFO, USE_OTHER},
         CoutEndl, Resolve [''foo''] False, PrintTransactionTable [''foo''],
         UserConfirm, DownloadPackages [''foo''], CoutEndl, NewRpmTransaction,
         NewDbTransaction, FillTransactions [''foo''], SetDtStart 1700000000,
         Start, RunTransaction [''foo''], SetDtEnd 1700000003, Finish DONE],
      db_transaction =
        Some \<lparr>dt_start = Some 1700000000, dt_end = Some 1700000003,
              started = True, state = Some DONE\<rparr>\<rparr>"
  by (simp add: run_eval ctx_defs)

subsection \<open>Early exits\<close>

text \<open>
  Claim C3. A run that reaches resolution and whose resolution reports a problem writes
  the text of all problems to the output, returns, and changes nothing: these are all
  its calls; no transaction record is created, nothing is downloaded and the execution
  collaborator is not called.
\<close>

theorem problems_end_the_run:
  assumes "Resolve goal strict \<in> set (events (run ctx ps))"
    and "resolve ctx goal False \<noteq> NO_PROBLEM"
  shows "outcome (run ctx ps) = Inr ()
    \<and> events (run ctx ps) =
        [CreateSystemRepo False,
         LoadRpmRepos {USE_FILELISTS, USE_PRESTO, USE_UPDATEINFO, USE_OTHER},
         CoutEndl, Resolve goal False, Cout (get_formated_all_problems ctx goal), CoutEndl]
    \<and> db_transaction (run ctx ps) = None
    \<and> NewDbTransaction \<notin> set (events (run ctx ps))
    \<and> (\<forall>g. DownloadPackages g \<notin> set (events (run ctx ps)))
    \<and> (\<forall>g. RunTransaction g \<notin> set (events (run ctx ps)))"
  using assms unfolding run_def Let_def
  by (auto split: sum.splits if_splits)

theorem problems_end_the_run_witness:
  "Resolve [''nonexistent''] False
     \<in> set (events (run scenario_ctx (parse_positional keys [''nonexistent''])))
   \<and> resolve scenario_ctx [''nonexistent''] False \<noteq> NO_PROBLEM
   \<and> outcome (run scenario_ctx (parse_positional keys [''nonexistent''])) = Inr ()
   \<and> db_transaction (run scenario_ctx (parse_positional keys [''nonexistent''])) = None
   \<and> Cout ''No match for argument: nonexistent''
        \<in> set (events (run scenario_ctx (parse_positional keys [''nonexistent''])))"
proof -
  have reached: "Resolve [''nonexistent''] False
      \<in> set (events (run scenario_ctx (parse_positional keys [''nonexistent''])))"
    by (simp add: run_scenario_nonexistent)
  have problem: "resolve scenario_ctx [''nonexistent''] False \<noteq> NO_PROBLEM"
    by (simp add: scenario_ctx_def)
  from problems_end_the_run [OF reached problem] reached problem show ?thesis
    by (simp add: scenario_ctx_def)
qed

text \<open>
  Claim C4. A run that reaches the preview, and in which the preview has nothing to
  display or the user does not confirm, returns without download, without execution and
  without a transaction record; when the preview had content (so the user refused), the
  run ends by writing \<open>Operation aborted.\<close> to the output.
\<close>

theorem empty_preview_or_refusal_ends_the_run:
  assumes "PrintTransactionTable goal \<in> set (events (run ctx ps))"
    and "\<not> print_transaction_table ctx goal \<or> \<not> userconfirm ctx"
  shows "outcome (run ctx ps) = Inr ()
    \<and> db_transaction (run ctx ps) = None
    \<and> (\<forall>g. DownloadPackages g \<notin> set (events (run ctx ps)))
    \<and> (\<forall>g. RunTransaction g \<notin> set (events (run ctx ps)))
    \<and> NewDbTransaction \<notin> set (events (run ctx ps))
    \<and> events (run ctx ps) =
        [CreateSystemRepo False,
         LoadRpmRepos {USE_FILELISTS, USE_PRESTO, USE_UPDATEINFO, USE_OTHER},
         CoutEndl, Resolve goal False, PrintTransactionTable goal] @
        (if print_transaction_table ctx goal
         then [UserConfirm, Cout ''Operation aborted.'', CoutEndl] else [])"
  using assms unfolding run_def Let_def
  by (auto split: sum.splits if_splits)

theorem empty_preview_or_refusal_ends_the_run_witness:
  "PrintTransactionTable [] \<in> set (events (run scenario_ctx (parse_positional keys [])))
   \<and> \<not> print_transaction_table scenario_ctx []
   \<and> events (run scenario_ctx (parse_positional keys [])) =
        [CreateSystemRepo False,
         LoadRpmRepos {USE_FILELISTS, USE_PRESTO, USE_UPDATEINFO, USE_OTHER},
         CoutEndl, Resolve [] False, PrintTransactionTable []]
   \<and> PrintTransactionTable [''foo'']
        \<in> set (events (run refusing_ctx (parse_positional keys [''foo''])))
   \<and> \<not> userconfirm refusing_ctx
   \<and> events (run refusing_ctx (parse_positional keys [''foo''])) =
        [CreateSystemRepo False,
         LoadRpmRepos {USE_FILELISTS, USE_PRESTO, USE_UPDATEINFO, USE_OTHER},
         CoutEndl, Resolve [''foo''] False, PrintTransactionTable [''foo''],
         UserConfirm, Cout ''Operation aborted.'', CoutEndl]
   \<and> db_transaction (run refusing_ctx (parse_positional keys [''foo''])) = None"
proof -
  have preview: "PrintTransactionTable []
      \<in> set (events (run scenario_ctx (parse_positional keys [])))"
    by (simp add: run_scenario_no_patterns)
  have empty: "\<not> print_transaction_table scenario_ctx [] \<or> \<not> userconfirm scenario_ctx"
    by (simp add: scenario_ctx_def)
  have preview': "PrintTransactionTable [''foo'']
      \<in> set (events (run refusing_ctx (parse_positional keys [''foo''])))"
    by (simp add: run_refusing_foo)
  have no: "\<not> print_transaction_table refusing_ctx [''foo''] \<or> \<not> userconfirm refusing_ctx"
    by (simp add: refusing_ctx_def scenario_ctx_def)
  from empty_preview_or_refusal_ends_the_run [OF preview empty]
    empty_preview_or_refusal_ends_the_run [OF preview' no] preview preview'
  show ?thesis
    by (simp add: refusing_ctx_def scenario_ctx_def)
qed

text \<open>
  Claim C5, as the code has it. The claim fails: \<^verbatim>\<open>download_packages(goal, nullptr);\<close>
  is a statement whose result is not read, so a download that returns a failure report
  does not stop the run. The run goes on to create and start the transaction record and
  to call the execution collaborator, and returns.
\<close>

theorem reported_download_failure_reaches_commit:
  "download_packages download_reporting_ctx [''foo''] = Inr DownloadFailed
   \<and> outcome (run download_reporting_ctx (parse_positional keys [''foo''])) = Inr ()
   \<and> drop 7 (events (run download_reporting_ctx (parse_positional keys [''foo'']))) =
        [CoutEndl, NewRpmTransaction, NewDbTransaction, FillTransactions [''foo''],
         SetDtStart 1700000000, Start, RunTransaction [''foo''], SetDtEnd 1700000003,
         Finish DONE]
   \<and> db_transaction (run download_reporting_ctx (parse_positional keys [''foo''])) =
       Some \<lparr>dt_start = Some 1700000000, dt_end = Some 1700000003,
             started = True, state = Some DONE\<rparr>"
proof -
  have "download_packages download_reporting_ctx [''foo''] = Inr DownloadFailed"
    by (simp add: download_reporting_ctx_def scenario_ctx_def)
  then show ?thesis
    by (simp add: run_download_reporting_foo)
qed

text \<open>
  Claim C5, amended. In every run that reaches the download, the download is called
  once. When the download collaborator raises, the run ends at that call with the
  download's failure as its outcome: no transaction record is created or started and
  the execution collaborator is not called. When the download collaborator returns,
  whatever it reports (also a failure), the report is not read: the run goes on to
  create and start the transaction record and to call the execution collaborator.
\<close>

theorem download_stops_the_run_only_by_raising:
  assumes "DownloadPackages goal \<in> set (events (run ctx ps))"
  shows "length (filter is_DownloadPackages (events (run ctx ps))) = 1
    \<and> (\<forall>w. download_packages ctx goal = Inl w \<longrightarrow>
          outcome (run ctx ps) = Inl (Exception w)
          \<and> db_transaction (run ctx ps) = None
          \<and> NewDbTransaction \<notin> set (events (run ctx ps))
          \<and> Start \<notin> set (events (run ctx ps))
          \<and> (\<forall>g. RunTransaction g \<notin> set (events (run ctx ps)))
          \<and> last (events (run ctx ps)) = DownloadPackages goal)
    \<and> (\<forall>report. download_packages ctx goal = Inr report \<longrightarrow>
          (\<exists>db. db_transaction (run ctx ps) = Some db \<and> started db)
          \<and> take 14 (events (run ctx ps)) =
              [CreateSystemRepo False,
               LoadRpmRepos {USE_FILELISTS, USE_PRESTO, USE_UPDATEINFO, USE_OTHER},
               CoutEndl, Resolve goal False, PrintTransactionTable goal, UserConfirm,
               DownloadPackages goal, CoutEndl, NewRpmTransaction, NewDbTransaction,
               FillTransactions goal,
               SetDtStart (duration_cast_seconds (system_clock_now ctx 0)), Start,
               RunTransaction goal])"
  using assms unfolding run_def Let_def
  by (auto simp: db_defs split: sum.splits if_splits)

theorem download_stops_the_run_only_by_raising_witness:
  "DownloadPackages [''foo'']
     \<in> set (events (run download_failing_ctx (parse_positional keys [''foo''])))
   \<and> download_packages download_failing_ctx [''foo''] = Inl ''download failed''
   \<and> outcome (run download_failing_ctx (parse_positional keys [''foo'']))
       = Inl (Exception ''download failed'')
   \<and> db_transaction (run download_failing_ctx (parse_positional keys [''foo''])) = None
   \<and> length (filter is_DownloadPackages
        (events (run download_failing_ctx (parse_positional keys [''foo''])))) = 1
   \<and> DownloadPackages [''foo'']
       \<in> set (events (run download_reporting_ctx (parse_positional keys [''foo''])))
   \<and> download_packages download_reporting_ctx [''foo''] = Inr DownloadFailed
   \<and> RunTransaction [''foo'']
       \<in> set (events (run download_reporting_ctx (parse_positional keys [''foo''])))"
proof -
  have reached: "DownloadPackages [''foo'']
      \<in> set (events (run download_failing_ctx (parse_positional keys [''foo''])))"
    by (simp add: run_download_failing_foo)
  have raises: "download_packages download_failing_ctx [''foo''] = Inl ''download failed''"
    by (simp add: download_failing_ctx_def scenario_ctx_def)
  have reached': "DownloadPackages [''foo'']
      \<in> set (events (run download_reporting_ctx (parse_positional keys [''foo''])))"
    by (simp add: run_download_reporting_foo)
  have reports: "download_packages download_reporting_ctx [''foo''] = Inr DownloadFailed"
    by (simp add: download_reporting_ctx_def scenario_ctx_def)
  from download_stops_the_run_only_by_raising [OF reached]
    download_stops_the_run_only_by_raising [OF reached'] reached reached' raises reports
  show ?thesis
    by (simp add: run_download_failing_foo run_download_reporting_foo)
qed

subsection \<open>The transaction record\<close>




text \<open>
  Claim C9, as the code has it. The claim fails: when the execution collaborator raises,
  the run reached execution with the record stamped and started, and ends with the
  record neither stamped with an end time nor given a terminal state.
\<close>

theorem record_left_started_when_execution_raises:
  "RunTransaction [''foo'']
     \<in> set (events (run execution_raising_ctx (parse_positional keys [''foo''])))
   \<and> db_transaction (run execution_raising_ctx (parse_positional keys [''foo''])) =
       Some \<lparr>dt_start = Some 1700000000, dt_end = None, started = True, state = None\<rparr>"
  by (simp add: run_execution_raising_foo)

text \<open>
  Claim C9, amended. In every run that reaches execution the record's start time is
  stamped and the record marked started before the execution collaborator is called.
  When the execution collaborator returns, whatever it reports (also a partial failure),
  the end time is stamped and the terminal state set to \<open>DONE\<close>. When it raises, the
  exception leaves the run and the record stays started, with no end time and no
  terminal state.
\<close>

theorem execution_between_start_and_finish:
  assumes "RunTransaction goal \<in> set (events (run ctx ps))"
  shows "\<exists>db. db_transaction (run ctx ps) = Some db
    \<and> dt_start db = Some (duration_cast_seconds (system_clock_now ctx 0)) \<and> started db
    \<and> events (run ctx ps) =
        [CreateSystemRepo False,
         LoadRpmRepos {USE_FILELISTS, USE_PRESTO, USE_UPDATEINFO, USE_OTHER},
         CoutEndl, Resolve goal False, PrintTransactionTable goal, UserConfirm,
         DownloadPackages goal, CoutEndl, NewRpmTransaction, NewDbTransaction,
         FillTransactions goal, SetDtStart (duration_cast_seconds (system_clock_now ctx 0)), Start,
         RunTransaction goal] @
        (case run_transaction ctx goal of
           Inl w \<Rightarrow> []
         | Inr report \<Rightarrow> [SetDtEnd (duration_cast_seconds (system_clock_now ctx 1)), Finish DONE])
    \<and> (\<forall>report. run_transaction ctx goal = Inr report \<longrightarrow>
          outcome (run ctx ps) = Inr ()
          \<and> dt_end db = Some (duration_cast_seconds (system_clock_now ctx 1)) \<and> state db = Some DONE)
    \<and> (\<forall>w. run_transaction ctx goal = Inl w \<longrightarrow>
          outcome (run ctx ps) = Inl (Exception w) \<and> dt_end db = None \<and> state db = None)"
  using assms unfolding run_def Let_def
  by (auto simp: db_defs split: sum.splits if_splits)

theorem execution_between_start_and_finish_witness:
  "RunTransaction [''foo'']
     \<in> set (events (run execution_reporting_ctx (parse_positional keys [''foo''])))
   \<and> run_transaction execution_reporting_ctx [''foo''] = Inr PartialFailure
   \<and> db_transaction (run execution_reporting_ctx (parse_positional keys [''foo''])) =
       Some \<lparr>dt_start = Some 1700000000, dt_end = Some 1700000003,
             started = True, state = Some DONE\<rparr>
   \<and> RunTransaction [''foo'']
       \<in> set (events (run execution_raising_ctx (parse_positional keys [''foo''])))
   \<and> run_transaction execution_raising_ctx [''foo''] = Inl ''rpm transaction failed''
   \<and> outcome (run execution_raising_ctx (parse_positional keys [''foo'']))
       = Inl (Exception ''rpm transaction failed'')"
proof -
  have reached: "RunTransaction [''foo'']
      \<in> set (events (run execution_reporting_ctx (parse_positional keys [''foo''])))"
    by (simp add: run_execution_reporting_foo)
  have reached': "RunTransaction [''foo'']
      \<in> set (events (run execution_raising_ctx (parse_positional keys [''foo''])))"
    by (simp add: run_execution_raising_foo)
  have reports: "run_transaction execution_reporting_ctx [''foo''] = Inr PartialFailure"
    by (simp add: execution_reporting_ctx_def scenario_ctx_def)
  have raises: "run_transaction execution_raising_ctx [''foo''] = Inl ''rpm transaction failed''"
    by (simp add: execution_raising_ctx_def scenario_ctx_def)
  from execution_between_start_and_finish [OF reached]
    execution_between_start_and_finish [OF reached'] reached reached' reports raises
  show ?thesis
    by (simp add: run_execution_reporting_foo run_execution_raising_foo)
qed

subsection \<open>The pattern loop\<close>

lemma add_patterns_OptionStrings:
  "\<forall>p \<in> set ps. \<exists>v. p = Some (OptionString v) \<Longrightarrow>
     add_patterns gv ps goal \<noteq> Inl NullDereference"
  by (induction ps arbitrary: goal) (auto split: sum.splits)

lemma add_patterns_first_other:
  assumes "\<forall>q \<in> set pre. \<exists>v s. q = Some (OptionString v) \<and> gv v = Inr s"
    and "dynamic_cast_OptionString p = None"
  shows "add_patterns gv (pre @ p # post) goal = Inl NullDereference"
  using assms by (induction pre arbitrary: goal) auto

lemma dynamic_cast_OptionString_None:
  "(dynamic_cast_OptionString p = None) = (\<forall>v. p \<noteq> Some (OptionString v))"
  by (cases p rule: dynamic_cast_OptionString.cases) simp_all

lemma add_patterns_only_OptionStrings:
  assumes "\<forall>v. \<exists>s. gv v = Inr s"
    and "add_patterns gv ps goal \<noteq> Inl NullDereference"
  shows "\<forall>p \<in> set ps. \<exists>v. p = Some (OptionString v)"
  using assms
proof (induction ps arbitrary: goal)
  case Nil
  then show ?case by simp
next
  case (Cons p ps)
  from Cons.prems(2) obtain v where p: "p = Some (OptionString v)"
    by (cases p rule: dynamic_cast_OptionString.cases) auto
  from Cons.prems(1) obtain s where s: "gv v = Inr s" by blast
  from Cons.prems(2) p s
  have "add_patterns gv ps (add_rpm_install s goal) \<noteq> Inl NullDereference" by simp
  with Cons.IH [OF Cons.prems(1)] have "\<forall>q \<in> set ps. \<exists>v. q = Some (OptionString v)" .
  with p show ?case by simp
qed

lemma parse_positional_keys_OptionStrings:
  "\<forall>p \<in> set (parse_positional keys argv). \<exists>v. p = Some (OptionString v)"
  by (auto simp: parse_positional_def keys_def)

text \<open>
  Claim C10. The loop uses the result of the downcast without a test: an element that is
  not an option-string (another kind of option, or a null pointer) is dereferenced as a
  null pointer. The loop has no null dereference when every element of the list is an
  option-string, and only then: an element that is not one is dereferenced once the
  elements before it have been added, so when \<^verbatim>\<open>get_value\<close> always returns, a loop without
  null dereference had only option-strings. The positional argument that
  \<^verbatim>\<open>set_argument_parser\<close> registers has an option-string as its initial value, so every
  collected element is an option-string, and neither the loop nor \<^verbatim>\<open>run\<close> dereferences
  a null pointer on a collected list.
\<close>

theorem pattern_loop_null_dereference:
  "(dynamic_cast_OptionString p = None \<longrightarrow>
      add_patterns gv (p # rest) goal = Inl NullDereference)
   \<and> ((\<forall>q \<in> set ps. \<exists>v. q = Some (OptionString v)) \<longrightarrow>
        add_patterns gv ps goal \<noteq> Inl NullDereference)
   \<and> ((\<forall>q \<in> set pre. \<exists>v s. q = Some (OptionString v) \<and> gv v = Inr s)
        \<and> (\<forall>v. p \<noteq> Some (OptionString v)) \<longrightarrow>
        add_patterns gv (pre @ p # post) goal = Inl NullDereference)
   \<and> ((\<forall>v. \<exists>s. gv v = Inr s) \<and> add_patterns gv ps goal \<noteq> Inl NullDereference \<longrightarrow>
        (\<forall>q \<in> set ps. \<exists>v. q = Some (OptionString v)))
   \<and> init_value keys = OptionString None
   \<and> (\<forall>q \<in> set (parse_positional keys argv). \<exists>v. q = Some (OptionString v))
   \<and> add_patterns gv (parse_positional keys argv) goal \<noteq> Inl NullDereference
   \<and> outcome (run ctx (parse_positional keys argv)) \<noteq> Inl NullDereference"
proof (intro conjI impI)
  show "init_value keys = OptionString None" by (simp add: keys_def)
  show "\<forall>q \<in> set (parse_positional keys argv). \<exists>v. q = Some (OptionString v)"
    by (rule parse_positional_keys_OptionStrings)
  show "add_patterns gv (parse_positional keys argv) goal \<noteq> Inl NullDereference"
    by (rule add_patterns_OptionStrings [OF parse_positional_keys_OptionStrings])
  have "add_patterns (get_value ctx) (parse_positional keys argv) [] \<noteq> Inl NullDereference"
    by (rule add_patterns_OptionStrings [OF parse_positional_keys_OptionStrings])
  then show "outcome (run ctx (parse_positional keys argv)) \<noteq> Inl NullDereference"
    unfolding run_def Let_def by (auto split: sum.splits if_splits)
next
  assume "dynamic_cast_OptionString p = None"
  then show "add_patterns gv (p # rest) goal = Inl NullDereference" by simp
next
  assume "\<forall>q \<in> set ps. \<exists>v. q = Some (OptionString v)"
  then show "add_patterns gv ps goal \<noteq> Inl NullDereference"
    by (rule add_patterns_OptionStrings)
next
  assume "(\<forall>q \<in> set pre. \<exists>v s. q = Some (OptionString v) \<and> gv v = Inr s)
        \<and> (\<forall>v. p \<noteq> Some (OptionString v))"
  then show "add_patterns gv (pre @ p # post) goal = Inl NullDereference"
    by (simp add: add_patterns_first_other dynamic_cast_OptionString_None)
next
  assume "(\<forall>v. \<exists>s. gv v = Inr s) \<and> add_patterns gv ps goal \<noteq> Inl NullDereference"
  then show "\<forall>q \<in> set ps. \<exists>v. q = Some (OptionString v)"
    using add_patterns_only_OptionStrings by blast
qed

theorem pattern_loop_null_dereference_witness:
  "dynamic_cast_OptionString (Some (OtherOption ''OptionBool'')) = None
   \<and> add_patterns (get_value scenario_ctx)
        [Some (OptionString (Some ''foo'')), Some (OtherOption ''OptionBool''),
         Some (OptionString (Some ''bar''))] []
       = Inl NullDereference
   \<and> add_patterns (get_value scenario_ctx) [None] [] = Inl NullDereference
   \<and> add_patterns (get_value scenario_ctx)
        [Some (OptionString (Some ''foo'')), Some (OptionString (Some ''bar''))] []
       = Inr [''foo'', ''bar'']
   \<and> parse_positional keys [''foo'', ''bar'']
       = [Some (OptionString (Some ''foo'')), Some (OptionString (Some ''bar''))]"
  using pattern_loop_null_dereference
    [where p = "Some (OtherOption ''OptionBool'')" and gv = "get_value scenario_ctx"
       and rest = "[]" and goal = "[]"
       and ps = "[Some (OptionString (Some ''foo'')), Some (OptionString (Some ''bar''))]"
       and pre = "[Some (OptionString (Some ''foo''))]"
       and post = "[Some (OptionString (Some ''bar''))]"
       and argv = "[''foo'', ''bar'']" and ctx = scenario_ctx]
  by (simp add: scenario_ctx_def add_rpm_install_def parse_positional_def keys_def)

end
